theory Spec2Isabelle
  imports Main
begin

section \<open>Package shell: options and the process runner\<close>

subsection \<open>Exit codes\<close>

definition ExitOK :: int where
  "ExitOK = 0"

definition ExitUnknown :: int where
  "ExitUnknown = 232"

definition ExitContextCancel :: int where
  "ExitContextCancel = 231"

definition ExitKillFailure :: int where
  "ExitKillFailure = 230"

subsection \<open>Collaborators from the Go standard library\<close>

text \<open>
  An \<open>io.Reader\<close> or \<open>io.Writer\<close> held in a field is an interface value: either nil
  (\<open>None\<close>) or a handle, which is all the runner ever does with it.
\<close>

type_synonym Reader = nat
type_synonym Writer = nat

text \<open>
  A \<open>context.Context\<close> is seen by the runner only through its \<open>Done()\<close> channel: it is
  closed at some instant, or never. \<open>context.Background()\<close> is never done.
\<close>

datatype Context = Context (done_at: "nat option")

definition Background :: Context where
  "Background = Context None"

fun join_with :: "string \<Rightarrow> string list \<Rightarrow> string" where
  "join_with sep [] = []"
| "join_with sep [x] = x"
| "join_with sep (x # y # ys) = x @ sep @ join_with sep (y # ys)"

text \<open>
  An \<open>error\<close> interface value is nil (\<open>None\<close>) or an error. \<open>errors.Join\<close> drops
  the nil arguments, returns nil when nothing is left, and otherwise wraps the remaining
  errors in their order; the message of the wrapper is their messages, one per line.
\<close>

datatype error = ErrorString string | JoinError "error list"

fun Error :: "error \<Rightarrow> string" where
  "Error (ErrorString s) = s"
| "Error (JoinError errs) = join_with ''\<newline>'' (map Error errs)"

definition errors_Join :: "error option list \<Rightarrow> error option" where
  "errors_Join errs =
     (let kept = List.map_filter (\<lambda>e. e) errs
      in if kept = [] then None else Some (JoinError kept))"

text \<open>
  The fields of \<open>exec.Cmd\<close> that the runner reads or assigns. \<open>exec.Command\<close> puts
  the program name first in \<open>Args\<close> and records a failed path lookup in \<open>Err\<close>.
\<close>

record Cmd =
  cmdPath :: string
  cmdArgs :: "string list"
  cmdErr :: "error option"
  cmdStdin :: "Reader option"
  cmdStdout :: "Writer option"
  cmdStderr :: "Writer option"

text \<open>
  \<open>cmd.String()\<close>: the arguments as requested when the path lookup failed, otherwise
  the resolved path followed by the arguments after the program name.
\<close>

definition Cmd_String :: "Cmd \<Rightarrow> string" where
  "Cmd_String c =
     (if cmdErr c \<noteq> None then join_with '' '' (cmdArgs c)
      else join_with '' '' (cmdPath c # tl (cmdArgs c)))"

text \<open>
  \<open>filepath.Join\<close> on a system whose separator is \<open>/\<close>: the non-empty elements are
  joined with the separator and the result is cleaned (\<open>filepath.Clean\<close>): repeated
  separators, \<open>.\<close> elements and a trailing separator disappear, and a \<open>..\<close> element
  removes the element before it.
\<close>

fun split_sep :: "string \<Rightarrow> string \<Rightarrow> string list" where
  "split_sep cur [] = [rev cur]"
| "split_sep cur (ch # rest) =
     (if ch = CHR ''/'' then rev cur # split_sep [] rest else split_sep (ch # cur) rest)"

fun clean_elems :: "bool \<Rightarrow> string list \<Rightarrow> string list \<Rightarrow> string list" where
  "clean_elems rooted kept [] = rev kept"
| "clean_elems rooted kept (el # els) =
     (if el = [] \<or> el = ''.'' then clean_elems rooted kept els
      else if el = ''..'' then
        (case kept of
           [] \<Rightarrow> if rooted then clean_elems rooted [] els else clean_elems rooted [''..''] els
         | k # ks \<Rightarrow> if k = ''..'' then clean_elems rooted (''..'' # kept) els
                     else clean_elems rooted ks els)
      else clean_elems rooted (el # kept) els)"

definition filepath_Clean :: "string \<Rightarrow> string" where
  "filepath_Clean path =
     (if path = [] then ''.''
      else let rooted = (hd path = CHR ''/'');
               body = join_with ''/'' (clean_elems rooted [] (split_sep [] path))
           in if rooted then ''/'' @ body else if body = [] then ''.'' else body)"

definition filepath_Join :: "string list \<Rightarrow> string" where
  "filepath_Join elems =
     (let used = filter (\<lambda>el. el \<noteq> []) elems
      in if used = [] then [] else filepath_Clean (join_with ''/'' used))"

text \<open>
  The state in which \<open>cmd.Wait()\<close> found the child: it exited with a status, or a
  signal terminated it. \<open>ExitCode()\<close> is the status of a child that exited and -1
  for one that a signal terminated.
\<close>

datatype process_state = Exited int | Signaled int

fun ExitCode :: "process_state \<Rightarrow> int" where
  "ExitCode (Exited status) = status"
| "ExitCode (Signaled sig) = - 1"

text \<open>
  The error of \<open>cmd.Wait()\<close>: nil, an \<open>*exec.ExitError\<close> with the state of the
  child, or any other error.
\<close>

datatype wait_error = ExitError process_state | OtherWaitError

text \<open>Structured log records (\<open>log/slog\<close>) and the process events of one invocation.\<close>

datatype level = LevelDebug | LevelInfo | LevelWarn | LevelError

datatype attr = ABool bool | AStr string | AInt int

datatype event =
    Slog level string "(string \<times> attr) list"
  | Started Cmd
  | StartFailed Cmd
  | Killed

subsection \<open>Options and option functions\<close>

record Options =
  dryRunEnabled :: bool
  stdin :: "Reader option"
  stdout :: "Writer option"
  stderr :: "Writer option"
  ctx :: "Context option"

type_synonym OptionFunc = "Options \<Rightarrow> Options"

text \<open>\<open>new(Options)\<close>: every field at its zero value.\<close>

definition zeroOptions :: Options where
  "zeroOptions = \<lparr>dryRunEnabled = False, stdin = None, stdout = None, stderr = None, ctx = None\<rparr>"

fun apply_opts :: "Options \<Rightarrow> OptionFunc list \<Rightarrow> Options" where
  "apply_opts ops [] = ops"
| "apply_opts ops (optionFunc # options) = apply_opts (optionFunc ops) options"

definition newOptions :: "OptionFunc list \<Rightarrow> Options" where
  "newOptions options = apply_opts zeroOptions options"

definition WithDryRun :: "bool \<Rightarrow> OptionFunc" where
  "WithDryRun enabled = (\<lambda>ops. ops\<lparr>dryRunEnabled := enabled\<rparr>)"

definition WithIO :: "Reader option \<Rightarrow> Writer option \<Rightarrow> Writer option \<Rightarrow> OptionFunc" where
  "WithIO r w1 w2 = (\<lambda>ops. ops\<lparr>stdin := r, stdout := w1, stderr := w2\<rparr>)"

definition WithStdin :: "Reader option \<Rightarrow> OptionFunc" where
  "WithStdin r = (\<lambda>ops. ops\<lparr>stdin := r\<rparr>)"

definition WithStdout :: "Writer option \<Rightarrow> OptionFunc" where
  "WithStdout w = (\<lambda>ops. ops\<lparr>stdout := w\<rparr>)"

definition WithStderr :: "Writer option \<Rightarrow> OptionFunc" where
  "WithStderr w = (\<lambda>ops. ops\<lparr>stderr := w\<rparr>)"

text \<open>
  The calls a caller can write with the five exported constructors, and the option
  function each call denotes.
\<close>

datatype option_call =
    CallWithDryRun bool
  | CallWithIO "Reader option" "Writer option" "Writer option"
  | CallWithStdin "Reader option"
  | CallWithStdout "Writer option"
  | CallWithStderr "Writer option"

fun optionFunc_of :: "option_call \<Rightarrow> OptionFunc" where
  "optionFunc_of (CallWithDryRun b) = WithDryRun b"
| "optionFunc_of (CallWithIO r w1 w2) = WithIO r w1 w2"
| "optionFunc_of (CallWithStdin r) = WithStdin r"
| "optionFunc_of (CallWithStdout w) = WithStdout w"
| "optionFunc_of (CallWithStderr w) = WithStderr w"

text \<open>Two calls address the same concern when they use the same constructor.\<close>

fun same_concern :: "option_call \<Rightarrow> option_call \<Rightarrow> bool" where
  "same_concern (CallWithDryRun _) (CallWithDryRun _) = True"
| "same_concern (CallWithIO _ _ _) (CallWithIO _ _ _) = True"
| "same_concern (CallWithStdin _) (CallWithStdin _) = True"
| "same_concern (CallWithStdout _) (CallWithStdout _) = True"
| "same_concern (CallWithStderr _) (CallWithStderr _) = True"
| "same_concern _ _ = False"

text \<open>The fields of \<open>Options\<close>, and the fields that make up the concern of a call.\<close>

datatype field = FDryRun | FStdin | FStdout | FStderr | FCtx

fun concern_fields :: "option_call \<Rightarrow> field set" where
  "concern_fields (CallWithDryRun _) = {FDryRun}"
| "concern_fields (CallWithIO _ _ _) = {FStdin, FStdout, FStderr}"
| "concern_fields (CallWithStdin _) = {FStdin}"
| "concern_fields (CallWithStdout _) = {FStdout}"
| "concern_fields (CallWithStderr _) = {FStderr}"

text \<open>Two option values agree on a field.\<close>

fun agree_on :: "field \<Rightarrow> Options \<Rightarrow> Options \<Rightarrow> bool" where
  "agree_on FDryRun a b = (dryRunEnabled a = dryRunEnabled b)"
| "agree_on FStdin a b = (stdin a = stdin b)"
| "agree_on FStdout a b = (stdout a = stdout b)"
| "agree_on FStderr a b = (stderr a = stderr b)"
| "agree_on FCtx a b = (ctx a = ctx b)"

subsection \<open>The operating system's side of one invocation\<close>

text \<open>
  What the runner cannot decide itself: whether \<open>cmd.Start()\<close> fails, the instant at
  which the child terminates (never, for a child that does not terminate), the time
  that passes from there until \<open>cmd.Wait()\<close> has returned in the goroutine and
  \<open>doneChan\<close> holds its value, the error \<open>Wait\<close> returns, whether
  \<open>Process.Kill()\<close> fails, and which ready case the \<open>select\<close> statement picks
  when both channels are ready at once.
\<close>

record proc_world =
  start_fails :: bool
  terminates_at :: "nat option"
  wait_latency :: nat
  wait_result :: "wait_error option"
  kill_fails :: bool
  tie_picks_ctx :: bool

text \<open>
  The instant at which the \<open>select\<close> can observe \<open>doneChan\<close> as ready: the
  child has terminated, \<open>Wait\<close> has returned and the goroutine has sent.
\<close>

definition exits_at :: "proc_world \<Rightarrow> nat option" where
  "exits_at w = map_option (\<lambda>t. t + wait_latency w) (terminates_at w)"

datatype select_case = CtxDone | ProcDone

text \<open>
  The \<open>select\<close> over \<open>o.ctx.Done()\<close> and \<open>doneChan\<close>: it blocks until a case is
  ready and takes it; with both ready it takes either.
\<close>

fun select_first :: "nat option \<Rightarrow> nat option \<Rightarrow> bool \<Rightarrow> select_case option" where
  "select_first None None pick = None"
| "select_first (Some c) None pick = Some CtxDone"
| "select_first None (Some e) pick = Some ProcDone"
| "select_first (Some c) (Some e) pick =
     Some (if c < e then CtxDone else if e < c then ProcDone
           else if pick then CtxDone else ProcDone)"

subsection \<open>run\<close>

definition shell_exec_record :: "Cmd \<Rightarrow> Options \<Rightarrow> event" where
  "shell_exec_record cmd ops =
     Slog LevelInfo ''shell exec''
       [(''dry_run'', ABool (dryRunEnabled ops)), (''command'', AStr (Cmd_String cmd))]"

definition wire :: "Cmd \<Rightarrow> Options \<Rightarrow> Cmd" where
  "wire cmd ops = cmd\<lparr>cmdStdin := stdin ops, cmdStdout := stdout ops, cmdStderr := stderr ops\<rparr>"

definition effective_ctx :: "Options \<Rightarrow> Context" where
  "effective_ctx ops = (case ctx ops of None \<Rightarrow> Background | Some c \<Rightarrow> c)"

text \<open>
  \<open>run\<close> yields the events it caused, in order, and the exit code it returns;
  \<open>None\<close> for the code means that the \<open>select\<close> blocks forever. The
  assignments to \<open>cmd.Stdin\<close>, \<open>cmd.Stdout\<close> and \<open>cmd.Stderr\<close> show in the
  command that is started (\<open>wire\<close>); the assignment of \<open>context.Background()\<close> to a
  nil \<open>o.ctx\<close> is read by the \<open>select\<close> only (\<open>effective_ctx\<close>).
\<close>

definition run :: "Cmd \<Rightarrow> Options \<Rightarrow> proc_world \<Rightarrow> event list \<times> int option" where
  "run cmd ops w =
     (if dryRunEnabled ops then ([shell_exec_record cmd ops], Some ExitOK)
      else if start_fails w then
        ([shell_exec_record cmd ops, StartFailed (wire cmd ops)], Some ExitUnknown)
      else
        (case select_first (done_at (effective_ctx ops)) (exits_at w) (tie_picks_ctx w) of
           None \<Rightarrow> ([shell_exec_record cmd ops, Started (wire cmd ops)], None)
         | Some CtxDone \<Rightarrow>
             ([shell_exec_record cmd ops, Started (wire cmd ops), Killed],
              if kill_fails w then Some ExitKillFailure else Some ExitContextCancel)
         | Some ProcDone \<Rightarrow>
             ([shell_exec_record cmd ops, Started (wire cmd ops)],
              (case wait_result w of
                 Some (ExitError exitCodeError) \<Rightarrow> Some (ExitCode exitCodeError)
               | Some OtherWaitError \<Rightarrow> Some ExitUnknown
               | None \<Rightarrow> Some ExitOK))))"

text \<open>Whether an event starts, or tries to start, a process.\<close>

fun spawns :: "event \<Rightarrow> bool" where
  "spawns (Started _) = True"
| "spawns (StartFailed _) = True"
| "spawns _ = False"

section \<open>Package pipelines\<close>

subsection \<open>The debug pipeline over shell commands (\<open>debug.go\<close>)\<close>

record Debug =
  Stdout :: "Writer option"
  Stderr :: "Writer option"
  DryRunEnabled :: bool

definition NewDebug :: "Writer option \<Rightarrow> Writer option \<Rightarrow> Debug" where
  "NewDebug stdoutW stderrW = \<lparr>Stdout = stdoutW, Stderr = stderrW, DryRunEnabled = False\<rparr>"

text \<open>
  A command as the builder chains of \<open>Debug.Run\<close> describe it: the tool constructor
  with its two writers, the operation, and the flag given to \<open>WithDryRun\<close>.
\<close>

datatype tool = Grype | Syft | Podman | Docker

datatype operation = Version | ScanImage string string

datatype built_command = BuiltCommand tool "Writer option" "Writer option" operation bool

datatype terminal = TermRun | TermRunLogErrorAsWarning

datatype pipeline_event =
    Logged level string "(string \<times> attr) list"
  | MkdirAll string
  | Called terminal built_command

text \<open>
  What \<open>Debug.Run\<close> receives from outside: the result of \<open>os.Getwd()\<close>, the error of
  \<open>os.MkdirAll\<close>, and for each built command the error that its terminal \<open>Run()\<close>
  returns (for the optional commands: the error that \<open>RunLogErrorAsWarning()\<close> has to
  deal with).
\<close>

record debug_world =
  getwd :: "error + string"
  mkdirAll :: "error option"
  cmdRun :: "built_command \<Rightarrow> error option"

text \<open>
  A call either returns its value or ends the program through \<open>os.Exit\<close>. In
  \<open>Debug_Run\<close> the arguments of \<open>errors.Join\<close> are evaluated from left to right.
\<close>

datatype 'a completion = OsExit int | Return 'a

definition Debug_Run :: "Debug \<Rightarrow> debug_world \<Rightarrow> pipeline_event list \<times> error option completion" where
  "Debug_Run d w =
     (let l = [(''pipeline'', AStr ''debug''), (''dry_run'', ABool (DryRunEnabled d))];
          started = [Logged LevelInfo ''start'' l];
          ImageTarball = ''./test/.artifacts/build-image/test-local.tar'';
          ImageSbom = ''./test/.artifacts/sbom/sbom.json''
      in case getwd w of
           Inl err \<Rightarrow> (started @ [Logged LevelError (Error err @ ''\<newline>'') []], OsExit 1)
         | Inr pwd \<Rightarrow>
             (let located = started @ [Logged LevelInfo (''Current directory: '' @ pwd) []];
                  artifactDir = filepath_Join [pwd, ''test'', ''.artifacts'', ''build-image'']
              in case mkdirAll w of
                   Some err \<Rightarrow>
                     (located @ [MkdirAll artifactDir,
                                 Logged LevelError (Error err @ ''\<newline>'') []],
                      OsExit 1)
                 | None \<Rightarrow>
                     (let grypeVersion =
                            BuiltCommand Grype (Stdout d) (Stderr d) Version (DryRunEnabled d);
                          syftVersion =
                            BuiltCommand Syft (Stdout d) (Stderr d) Version (DryRunEnabled d);
                          syftScan =
                            BuiltCommand Syft (Stdout d) (Stderr d)
                              (ScanImage ImageTarball ImageSbom) (DryRunEnabled d);
                          podmanVersion =
                            BuiltCommand Podman (Stdout d) (Stderr d) Version (DryRunEnabled d);
                          dockerVersion =
                            BuiltCommand Docker (Stdout d) (Stderr d) Version (DryRunEnabled d);
                          errs = errors_Join
                                   [cmdRun w grypeVersion, cmdRun w syftVersion, cmdRun w syftScan]
                      in (located @
                          [MkdirAll artifactDir,
                           Called TermRun grypeVersion,
                           Called TermRun syftVersion,
                           Called TermRun syftScan,
                           Called TermRunLogErrorAsWarning podmanVersion,
                           Called TermRunLogErrorAsWarning dockerVersion,
                           Logged LevelInfo ''complete'' l],
                          Return errs))))"

text \<open>
  The errors of the three mandatory commands of \<open>Debug.Run\<close>, in the order of the
  arguments of its \<open>errors.Join\<close> call.
\<close>

definition mandatory_errors :: "Debug \<Rightarrow> debug_world \<Rightarrow> error option list" where
  "mandatory_errors d w =
     [cmdRun w (BuiltCommand Grype (Stdout d) (Stderr d) Version (DryRunEnabled d)),
      cmdRun w (BuiltCommand Syft (Stdout d) (Stderr d) Version (DryRunEnabled d)),
      cmdRun w (BuiltCommand Syft (Stdout d) (Stderr d)
                  (ScanImage ''./test/.artifacts/build-image/test-local.tar''
                             ''./test/.artifacts/sbom/sbom.json'')
                  (DryRunEnabled d))]"

text \<open>The terminal calls among the events of a run, in order.\<close>

fun calls_of :: "pipeline_event list \<Rightarrow> (terminal \<times> tool \<times> operation) list" where
  "calls_of [] = []"
| "calls_of (Called t (BuiltCommand prog out err opn dry) # evs) = (t, prog, opn) # calls_of evs"
| "calls_of (_ # evs) = calls_of evs"

subsection \<open>The terminal \<open>RunLogErrorAsWarning\<close> of the command builder\<close>

text \<open>
  Modelled from the spec: the command builder of package \<open>shell\<close> (the constructors
  \<open>GrypeCommand\<close>, \<open>SyftCommand\<close>, \<open>PodmanCommand\<close>, \<open>DockerCommand\<close> and the
  terminals \<open>Run\<close> and \<open>RunLogErrorAsWarning\<close>) is not among the sources. The spec
  describes an invocation as a program with its arguments and the options to apply, and
  the terminal \<open>runLogErrorAsWarning()\<close> as the variant that delegates to the process
  runner, suppresses the propagation of a non-success exit outcome, records it as a
  warning-level event instead, and returns no error to the caller.
\<close>

record Executable =
  exe_cmd :: Cmd
  exe_options :: "OptionFunc list"

text \<open>
  Modelled from the spec: \<open>RunLogErrorAsWarning\<close>. The result is the events caused
  and the error handed to the caller (\<open>None\<close> when the process runner never returns,
  \<open>Some None\<close> for a nil error).
\<close>

definition RunLogErrorAsWarning :: "Executable \<Rightarrow> proc_world \<Rightarrow> event list \<times> error option option" where
  "RunLogErrorAsWarning e w =
     (case run (exe_cmd e) (newOptions (exe_options e)) w of
        (evs, None) \<Rightarrow> (evs, None)
      | (evs, Some code) \<Rightarrow>
          if code = ExitOK then (evs, Some None)
          else (evs @ [Slog LevelWarn ''command failed'' [(''exit_code'', AInt code)]],
                Some None))"

fun is_warning :: "event \<Rightarrow> bool" where
  "is_warning (Slog lvl msg attrs) = (lvl = LevelWarn)"
| "is_warning _ = False"

subsection \<open>The debug pipeline over a container (\<open>Debug.Execute\<close>)\<close>

text \<open>
  The pipeline's writer is represented by what has been written to it, one entry per
  \<open>Write\<close> call; the dagger client is a handle.
\<close>

record DebugPipeline =
  name :: string
  client :: nat
  pipeline_stdout :: "string list"

definition NewDebugPipeline :: "nat \<Rightarrow> string list \<Rightarrow> DebugPipeline" where
  "NewDebugPipeline c stdoutWriter =
     \<lparr>name = ''Debug Pipeline'', client = c, pipeline_stdout = stdoutWriter\<rparr>"

text \<open>
  The two jobs run in goroutines of one \<open>errgroup.Group\<close>; \<open>Wait\<close> returns after
  both have finished, with the first non-nil error in the order of completion.
\<close>

datatype completion_order = DebugJobFirst | SysInfoJobFirst

definition errGroup_Wait :: "completion_order \<Rightarrow> error option \<Rightarrow> error option \<Rightarrow> error option" where
  "errGroup_Wait ord debugErr sysInfoErr =
     (case ord of
        DebugJobFirst \<Rightarrow> (case debugErr of Some e \<Rightarrow> Some e | None \<Rightarrow> sysInfoErr)
      | SysInfoJobFirst \<Rightarrow> (case sysInfoErr of Some e \<Rightarrow> Some e | None \<Rightarrow> debugErr))"

text \<open>
  \<open>fmt.Sprintf("debug output:\n%s\nsystem information:\n%s\n", debugOutput, systemInfo)\<close>
\<close>

definition report :: "string \<Rightarrow> string \<Rightarrow> string" where
  "report debugOutput systemInfo =
     ''debug output:\<newline>'' @ debugOutput @ ''\<newline>system information:\<newline>''
       @ systemInfo @ ''\<newline>''"

text \<open>
  \<open>Execute\<close>, given what \<open>jobs.RunDebug\<close> and \<open>jobs.RunDebugSysInfo\<close> return (a
  string and an error each) and the order in which the two goroutines finish. Each
  goroutine assigns the string its job returned to its variable, whatever the error.
\<close>

definition Execute :: "DebugPipeline \<Rightarrow> string \<times> error option \<Rightarrow> string \<times> error option
    \<Rightarrow> completion_order \<Rightarrow> DebugPipeline \<times> error option" where
  "Execute p runDebug runDebugSysInfo ord =
     (let debugOutput = fst runDebug;
          systemInfo = fst runDebugSysInfo;
          err = errGroup_Wait ord (snd runDebug) (snd runDebugSysInfo);
          r = report debugOutput systemInfo
      in (p\<lparr>pipeline_stdout := pipeline_stdout p @ [r]\<rparr>, err))"

section \<open>Properties of the process runner\<close>

lemma exits_at_wait_result:
  "exits_at (w\<lparr>wait_result := r\<rparr>) = exits_at w"
  by (simp add: exits_at_def)

lemma exits_at_after_termination:
  "exits_at w = Some e \<longleftrightarrow> (\<exists>d. terminates_at w = Some d \<and> e = d + wait_latency w)"
  by (auto simp: exits_at_def)

lemma ExitCode_not_exited:
  "st \<noteq> Exited (ExitCode st) \<Longrightarrow> ExitCode st = - 1 \<and> (\<exists>sig. st = Signaled sig)"
  by (cases st) simp_all

lemma run_cancel_case:
  assumes "\<not> dryRunEnabled ops" and "\<not> start_fails w"
    and "select_first (done_at (effective_ctx ops)) (exits_at w) (tie_picks_ctx w) = Some CtxDone"
  shows "run cmd ops w =
      ([shell_exec_record cmd ops, Started (wire cmd ops), Killed],
       Some (if kill_fails w then 230 else 231))"
  using assms by (simp add: run_def ExitKillFailure_def ExitContextCancel_def)

lemma run_done_case:
  assumes "\<not> dryRunEnabled ops" and "\<not> start_fails w"
    and "select_first (done_at (effective_ctx ops)) (exits_at w) (tie_picks_ctx w) = Some ProcDone"
  shows "run cmd ops w =
      ([shell_exec_record cmd ops, Started (wire cmd ops)],
       Some (case wait_result w of
               Some (ExitError (Exited status)) \<Rightarrow> status
             | Some (ExitError (Signaled sig)) \<Rightarrow> - 1
             | Some OtherWaitError \<Rightarrow> 232
             | None \<Rightarrow> 0))"
  using assms
  by (simp add: run_def ExitOK_def ExitUnknown_def
      split: option.split wait_error.split process_state.split)

lemma select_ctx_before:
  assumes "\<forall>e. doneReady = Some e \<longrightarrow> t < e"
  shows "select_first (Some t) doneReady pick = Some CtxDone"
  using assms by (cases doneReady) simp_all

lemma select_done_before:
  assumes "\<forall>t. ctxDone = Some t \<longrightarrow> e < t"
  shows "select_first ctxDone (Some e) pick = Some ProcDone"
  using assms by (cases ctxDone) simp_all

text \<open>
  C3. With \<open>dryRunEnabled\<close> set, \<open>run\<close> returns \<open>ExitOK\<close> = 0 for every command, every
  behaviour of the operating system and every context (also one that is already done),
  starts no process, and logs the command it would have run.
\<close>

theorem run_dry_run:
  assumes "dryRunEnabled ops"
  shows "snd (run cmd ops w) = Some 0
       \<and> (\<forall>e \<in> set (fst (run cmd ops w)). \<not> spawns e)
       \<and> fst (run cmd ops w) =
           [Slog LevelInfo ''shell exec''
              [(''dry_run'', ABool True), (''command'', AStr (Cmd_String cmd))]]"
  using assms by (simp add: run_def ExitOK_def shell_exec_record_def)

theorem run_dry_run_witness:
  "dryRunEnabled (newOptions [WithIO None (Some 1) (Some 2), WithDryRun True]
                    \<lparr>ctx := Some (Context (Some 0))\<rparr>)
   \<and> run \<lparr>cmdPath = ''nosuch'', cmdArgs = [''nosuch'', ''--version''],
            cmdErr = Some (ErrorString ''executable file not found in $PATH''),
            cmdStdin = None, cmdStdout = None, cmdStderr = None\<rparr>
          (newOptions [WithIO None (Some 1) (Some 2), WithDryRun True]
             \<lparr>ctx := Some (Context (Some 0))\<rparr>)
          \<lparr>start_fails = True, terminates_at = None, wait_latency = 0, wait_result = None,
            kill_fails = True, tie_picks_ctx = True\<rparr>
       = ([Slog LevelInfo ''shell exec''
             [(''dry_run'', ABool True), (''command'', AStr ''nosuch --version'')]],
          Some 0)"
proof -
  let ?ops = "newOptions [WithIO None (Some 1) (Some 2), WithDryRun True]
                \<lparr>ctx := Some (Context (Some 0))\<rparr>"
  let ?cmd = "\<lparr>cmdPath = ''nosuch'', cmdArgs = [''nosuch'', ''--version''],
               cmdErr = Some (ErrorString ''executable file not found in $PATH''),
               cmdStdin = None, cmdStdout = None, cmdStderr = None\<rparr>"
  let ?w = "\<lparr>start_fails = True, terminates_at = None, wait_latency = 0, wait_result = None,
             kill_fails = True, tie_picks_ctx = True\<rparr>"
  have dry: "dryRunEnabled ?ops"
    by (simp add: newOptions_def zeroOptions_def WithIO_def WithDryRun_def)
  have str: "Cmd_String ?cmd = ''nosuch --version''"
    by (simp add: Cmd_String_def)
  from run_dry_run [OF dry, where cmd = ?cmd and w = ?w] have
    "snd (run ?cmd ?ops ?w) = Some 0"
    "fst (run ?cmd ?ops ?w) =
       [Slog LevelInfo ''shell exec''
          [(''dry_run'', ABool True), (''command'', AStr (Cmd_String ?cmd))]]"
    by blast+
  with dry str show ?thesis
    by (simp add: prod_eq_iff)
qed

text \<open>
  C6. When dry run is off and \<open>cmd.Start()\<close> fails, whatever the reason, \<open>run\<close>
  returns \<open>ExitUnknown\<close> = 232.
\<close>

theorem run_start_failure:
  assumes "\<not> dryRunEnabled ops" and "start_fails w"
  shows "snd (run cmd ops w) = Some 232 \<and> ExitUnknown = 232"
  using assms by (simp add: run_def ExitUnknown_def)

theorem run_start_failure_witness:
  "\<not> dryRunEnabled (newOptions [WithStdout (Some 1)])
   \<and> snd (run \<lparr>cmdPath = ''nosuch'', cmdArgs = [''nosuch''],
                 cmdErr = Some (ErrorString ''executable file not found in $PATH''),
                 cmdStdin = None, cmdStdout = None, cmdStderr = None\<rparr>
               (newOptions [WithStdout (Some 1)])
               \<lparr>start_fails = True, terminates_at = Some 4, wait_latency = 0,
                 wait_result = Some (ExitError (Exited 1)),
                 kill_fails = False, tie_picks_ctx = False\<rparr>) = Some 232"
proof -
  have off: "\<not> dryRunEnabled (newOptions [WithStdout (Some 1)])"
    by (simp add: newOptions_def zeroOptions_def WithStdout_def)
  show ?thesis
    using off run_start_failure [OF off, where w =
        "\<lparr>start_fails = True, terminates_at = Some 4, wait_latency = 0,
          wait_result = Some (ExitError (Exited 1)),
          kill_fails = False, tie_picks_ctx = False\<rparr>"]
    by simp
qed

text \<open>
  C1. For a spawned invocation (dry run off, \<open>cmd.Start()\<close> succeeded) whose context is
  done strictly before the child terminates, or whose child never terminates, \<open>run\<close>
  calls \<open>Process.Kill()\<close> and returns \<open>ExitContextCancel\<close> = 231 when the kill
  succeeds and \<open>ExitKillFailure\<close> = 230 when it fails. The same holds when the
  context is done strictly before \<open>doneChan\<close> is ready, and whenever the \<open>select\<close>
  takes the cancellation case, for every error \<open>r\<close> that \<open>cmd.Wait()\<close> may have
  produced.
\<close>

theorem run_cancelled_first:
  assumes "\<not> dryRunEnabled ops" and "\<not> start_fails w"
  shows "(ctx ops = Some c \<and> done_at c = Some t \<and> (\<forall>e. exits_at w = Some e \<longrightarrow> t < e)
            \<longrightarrow> run cmd ops w =
                  ([shell_exec_record cmd ops, Started (wire cmd ops), Killed],
                   Some (if kill_fails w then 230 else 231)))
       \<and> (select_first (done_at (effective_ctx ops)) (exits_at w) (tie_picks_ctx w) = Some CtxDone
            \<longrightarrow> run cmd ops (w\<lparr>wait_result := r\<rparr>) =
                  ([shell_exec_record cmd ops, Started (wire cmd ops), Killed],
                   Some (if kill_fails w then 230 else 231)))
       \<and> (ctx ops = Some c \<and> done_at c = Some t \<and> (\<forall>d. terminates_at w = Some d \<longrightarrow> t < d)
            \<longrightarrow> run cmd ops w =
                  ([shell_exec_record cmd ops, Started (wire cmd ops), Killed],
                   Some (if kill_fails w then 230 else 231)))"
proof (intro conjI impI)
  assume h: "ctx ops = Some c \<and> done_at c = Some t \<and> (\<forall>e. exits_at w = Some e \<longrightarrow> t < e)"
  then have "select_first (done_at (effective_ctx ops)) (exits_at w) (tie_picks_ctx w) = Some CtxDone"
    by (simp add: effective_ctx_def select_ctx_before)
  with assms show "run cmd ops w =
      ([shell_exec_record cmd ops, Started (wire cmd ops), Killed],
       Some (if kill_fails w then 230 else 231))"
    by (rule run_cancel_case)
next
  assume sel: "select_first (done_at (effective_ctx ops)) (exits_at w) (tie_picks_ctx w) = Some CtxDone"
  have "run cmd ops (w\<lparr>wait_result := r\<rparr>) =
      ([shell_exec_record cmd ops, Started (wire cmd ops), Killed],
       Some (if kill_fails (w\<lparr>wait_result := r\<rparr>) then 230 else 231))"
    using assms sel by (intro run_cancel_case) (simp_all add: exits_at_wait_result)
  then show "run cmd ops (w\<lparr>wait_result := r\<rparr>) =
      ([shell_exec_record cmd ops, Started (wire cmd ops), Killed],
       Some (if kill_fails w then 230 else 231))"
    by simp
next
  assume h: "ctx ops = Some c \<and> done_at c = Some t \<and> (\<forall>d. terminates_at w = Some d \<longrightarrow> t < d)"
  then have "\<forall>e. exits_at w = Some e \<longrightarrow> t < e"
    by (auto simp: exits_at_after_termination)
  with h have "select_first (done_at (effective_ctx ops)) (exits_at w) (tie_picks_ctx w) = Some CtxDone"
    by (simp add: effective_ctx_def select_ctx_before)
  with assms show "run cmd ops w =
      ([shell_exec_record cmd ops, Started (wire cmd ops), Killed],
       Some (if kill_fails w then 230 else 231))"
    by (rule run_cancel_case)
qed

theorem run_cancelled_first_witness:
  "snd (run \<lparr>cmdPath = ''/bin/sleep'', cmdArgs = [''sleep'', ''60''], cmdErr = None,
             cmdStdin = None, cmdStdout = None, cmdStderr = None\<rparr>
           (zeroOptions\<lparr>ctx := Some (Context (Some 3))\<rparr>)
           \<lparr>start_fails = False, terminates_at = Some 5, wait_latency = 1,
             wait_result = Some (ExitError (Exited 7)),
             kill_fails = False, tie_picks_ctx = False\<rparr>) = Some 231
   \<and> snd (run \<lparr>cmdPath = ''/bin/sleep'', cmdArgs = [''sleep'', ''60''], cmdErr = None,
               cmdStdin = None, cmdStdout = None, cmdStderr = None\<rparr>
             (zeroOptions\<lparr>ctx := Some (Context (Some 3))\<rparr>)
             \<lparr>start_fails = False, terminates_at = Some 5, wait_latency = 1,
               wait_result = Some (ExitError (Exited 9)),
               kill_fails = True, tie_picks_ctx = False\<rparr>) = Some 230"
proof -
  let ?ops = "zeroOptions\<lparr>ctx := Some (Context (Some 3))\<rparr>"
  let ?cmd = "\<lparr>cmdPath = ''/bin/sleep'', cmdArgs = [''sleep'', ''60''], cmdErr = None,
             cmdStdin = None, cmdStdout = None, cmdStderr = None\<rparr>"
  let ?w = "\<lparr>start_fails = False, terminates_at = Some 5, wait_latency = 1,
             wait_result = Some (ExitError (Exited 7)),
             kill_fails = False, tie_picks_ctx = False\<rparr>"
  let ?w' = "\<lparr>start_fails = False, terminates_at = Some 5, wait_latency = 1,
              wait_result = Some (ExitError (Exited 7)),
              kill_fails = True, tie_picks_ctx = False\<rparr>"
  have off: "\<not> dryRunEnabled ?ops" by (simp add: zeroOptions_def)
  have ok: "\<not> start_fails ?w" "\<not> start_fails ?w'" by simp_all
  have hyp: "ctx ?ops = Some (Context (Some 3)) \<and> done_at (Context (Some 3)) = Some 3
             \<and> (\<forall>d. terminates_at ?w = Some d \<longrightarrow> 3 < d)"
    by simp
  have sel: "select_first (done_at (effective_ctx ?ops)) (exits_at ?w') (tie_picks_ctx ?w')
             = Some CtxDone"
    by (simp add: effective_ctx_def exits_at_def)
  from run_cancelled_first [OF off ok(1), where c = "Context (Some 3)" and t = 3 and cmd = ?cmd] hyp
  have a: "snd (run ?cmd ?ops ?w) = Some 231"
    by simp
  from run_cancelled_first [OF off ok(2), where r = "Some (ExitError (Exited 9))" and cmd = ?cmd] sel
  have b: "snd (run ?cmd ?ops (?w'\<lparr>wait_result := Some (ExitError (Exited 9))\<rparr>)) = Some 230"
    by simp
  from a b show ?thesis by simp
qed

text \<open>
  C2 as stated fails: a child that terminated at instant 2, before the context is done
  at instant 3, but whose \<open>Wait\<close> has not yet made \<open>doneChan\<close> ready by then, is
  treated as cancelled; \<open>run\<close> returns 231 and not the child's exit code 3.
\<close>

theorem run_terminated_unreaped_counterexample:
  "terminates_at \<lparr>start_fails = False, terminates_at = Some 2, wait_latency = 2,
                   wait_result = Some (ExitError (Exited 3)),
                   kill_fails = False, tie_picks_ctx = False\<rparr> = Some 2
   \<and> done_at (effective_ctx (zeroOptions\<lparr>ctx := Some (Context (Some 3))\<rparr>)) = Some 3
   \<and> (2::nat) < 3
   \<and> run \<lparr>cmdPath = ''/usr/bin/grype'', cmdArgs = [''grype'', ''version''], cmdErr = None,
            cmdStdin = None, cmdStdout = None, cmdStderr = None\<rparr>
          (zeroOptions\<lparr>ctx := Some (Context (Some 3))\<rparr>)
          \<lparr>start_fails = False, terminates_at = Some 2, wait_latency = 2,
            wait_result = Some (ExitError (Exited 3)),
            kill_fails = False, tie_picks_ctx = False\<rparr>
       = ([Slog LevelInfo ''shell exec''
             [(''dry_run'', ABool False), (''command'', AStr ''/usr/bin/grype version'')],
           Started \<lparr>cmdPath = ''/usr/bin/grype'', cmdArgs = [''grype'', ''version''],
                    cmdErr = None, cmdStdin = None, cmdStdout = None, cmdStderr = None\<rparr>,
           Killed],
          Some 231)
   \<and> (231::int) \<noteq> 3"
  by (simp add: run_def zeroOptions_def effective_ctx_def exits_at_def shell_exec_record_def
      Cmd_String_def wire_def ExitContextCancel_def)

text \<open>
  C2, as amended. For a spawned invocation whose \<open>cmd.Wait()\<close> has returned and made
  \<open>doneChan\<close> ready strictly before the context is done (or whose context is never
  done), \<open>run\<close> returns the exit status of the \<open>*exec.ExitError\<close> when the child
  exited with one (and -1, its \<open>ExitCode()\<close>, when a signal terminated the child),
  \<open>ExitOK\<close> = 0 when \<open>Wait\<close> returned no error, and \<open>ExitUnknown\<close> = 232 for any
  other error; the process is not killed. When the context is done after the child
  terminated but strictly before \<open>doneChan\<close> is ready, \<open>run\<close> takes the cancellation
  case: it calls \<open>Process.Kill()\<close> and returns 231, or 230 when the kill fails.
\<close>

theorem run_process_first:
  assumes "\<not> dryRunEnabled ops" and "\<not> start_fails w"
  shows "(exits_at w = Some e \<and> (\<forall>t. done_at (effective_ctx ops) = Some t \<longrightarrow> e < t)
            \<longrightarrow> run cmd ops w =
                  ([shell_exec_record cmd ops, Started (wire cmd ops)],
                   Some (case wait_result w of
                           Some (ExitError (Exited status)) \<Rightarrow> status
                         | Some (ExitError (Signaled sig)) \<Rightarrow> - 1
                         | Some OtherWaitError \<Rightarrow> 232
                         | None \<Rightarrow> 0)))
       \<and> (terminates_at w = Some d \<and> done_at (effective_ctx ops) = Some t
            \<and> t < d + wait_latency w
            \<longrightarrow> run cmd ops w =
                  ([shell_exec_record cmd ops, Started (wire cmd ops), Killed],
                   Some (if kill_fails w then 230 else 231)))"
proof (intro conjI impI)
  assume h: "exits_at w = Some e \<and> (\<forall>t. done_at (effective_ctx ops) = Some t \<longrightarrow> e < t)"
  then have "select_first (done_at (effective_ctx ops)) (exits_at w) (tie_picks_ctx w) = Some ProcDone"
    by (simp add: select_done_before)
  with assms show "run cmd ops w =
      ([shell_exec_record cmd ops, Started (wire cmd ops)],
       Some (case wait_result w of
               Some (ExitError (Exited status)) \<Rightarrow> status
             | Some (ExitError (Signaled sig)) \<Rightarrow> - 1
             | Some OtherWaitError \<Rightarrow> 232
             | None \<Rightarrow> 0))"
    by (rule run_done_case)
next
  assume h: "terminates_at w = Some d \<and> done_at (effective_ctx ops) = Some t
      \<and> t < d + wait_latency w"
  then have "exits_at w = Some (d + wait_latency w)"
    by (simp add: exits_at_def)
  with h have "select_first (done_at (effective_ctx ops)) (exits_at w) (tie_picks_ctx w) = Some CtxDone"
    by simp
  with assms show "run cmd ops w =
      ([shell_exec_record cmd ops, Started (wire cmd ops), Killed],
       Some (if kill_fails w then 230 else 231))"
    by (rule run_cancel_case)
qed

theorem run_process_first_witness:
  "map (\<lambda>r. snd (run \<lparr>cmdPath = ''/usr/bin/grype'', cmdArgs = [''grype'', ''version''],
                       cmdErr = None, cmdStdin = None, cmdStdout = None, cmdStderr = None\<rparr>
                     (zeroOptions\<lparr>ctx := Some (Context (Some 9))\<rparr>)
                     \<lparr>start_fails = False, terminates_at = Some 2, wait_latency = 1,
                       wait_result = r, kill_fails = False, tie_picks_ctx = True\<rparr>))
       [Some (ExitError (Exited 3)), None, Some OtherWaitError, Some (ExitError (Signaled 9))]
   = [Some 3, Some 0, Some 232, Some (- 1)]
   \<and> snd (run \<lparr>cmdPath = ''/usr/bin/grype'', cmdArgs = [''grype'', ''version''],
                 cmdErr = None, cmdStdin = None, cmdStdout = None, cmdStderr = None\<rparr>
               (zeroOptions\<lparr>ctx := Some (Context (Some 9))\<rparr>)
               \<lparr>start_fails = False, terminates_at = Some 8, wait_latency = 4,
                 wait_result = Some (ExitError (Exited 3)), kill_fails = False,
                 tie_picks_ctx = True\<rparr>) = Some 231"
proof -
  let ?ops = "zeroOptions\<lparr>ctx := Some (Context (Some 9))\<rparr>"
  let ?cmd = "\<lparr>cmdPath = ''/usr/bin/grype'', cmdArgs = [''grype'', ''version''],
               cmdErr = None, cmdStdin = None, cmdStdout = None, cmdStderr = None\<rparr>"
  let ?w = "\<lambda>r. \<lparr>start_fails = False, terminates_at = Some 2, wait_latency = 1,
                  wait_result = r, kill_fails = False, tie_picks_ctx = True\<rparr>"
  let ?v = "\<lparr>start_fails = False, terminates_at = Some 8, wait_latency = 4,
             wait_result = Some (ExitError (Exited 3)), kill_fails = False,
             tie_picks_ctx = True\<rparr>"
  have off: "\<not> dryRunEnabled ?ops" by (simp add: zeroOptions_def)
  have ok: "\<not> start_fails (?w r)" for r by simp
  have okv: "\<not> start_fails ?v" by simp
  have bef: "exits_at (?w r) = Some 3
      \<and> (\<forall>t. done_at (effective_ctx ?ops) = Some t \<longrightarrow> 3 < t)" for r
    by (simp add: effective_ctx_def exits_at_def)
  have late: "terminates_at ?v = Some 8 \<and> done_at (effective_ctx ?ops) = Some 9
      \<and> 9 < 8 + wait_latency ?v"
    by (simp add: effective_ctx_def)
  have codes: "snd (run ?cmd ?ops (?w r)) =
      Some (case r of
              Some (ExitError (Exited status)) \<Rightarrow> status
            | Some (ExitError (Signaled sig)) \<Rightarrow> - 1
            | Some OtherWaitError \<Rightarrow> 232
            | None \<Rightarrow> 0)" for r
    using run_process_first [OF off ok, where e = 3 and cmd = ?cmd and r1 = r] bef [of r]
    by simp
  have cancelled: "snd (run ?cmd ?ops ?v) = Some 231"
    using run_process_first [OF off okv, where d = 8 and t = 9 and cmd = ?cmd] late
    by simp
  from codes cancelled show ?thesis by simp
qed

text \<open>
  C4 as stated fails for a child that a signal terminated: \<open>run\<close> returns -1, the
  \<open>ExitCode()\<close> of its \<open>*exec.ExitError\<close>, which is no sentinel and no exit code of
  the child.
\<close>

theorem run_signaled_child_counterexample:
  "snd (run \<lparr>cmdPath = ''/usr/bin/syft'', cmdArgs = [''syft'', ''version''], cmdErr = None,
             cmdStdin = None, cmdStdout = None, cmdStderr = None\<rparr>
           zeroOptions
           \<lparr>start_fails = False, terminates_at = Some 2, wait_latency = 0,
             wait_result = Some (ExitError (Signaled 9)),
             kill_fails = False, tie_picks_ctx = True\<rparr>) = Some (- 1)
   \<and> (- 1 :: int) \<notin> {0, 230, 231, 232}
   \<and> ExitError (Signaled 9) \<noteq> ExitError (Exited (- 1))"
  by (simp add: run_def zeroOptions_def effective_ctx_def Background_def exits_at_def)

text \<open>
  C4, as amended. The four sentinels are 0, 230, 231 and 232. Whenever \<open>run\<close> returns,
  its result is one of them, or the exit status of a child that exited, taken unchanged
  from the \<open>*exec.ExitError\<close> of \<open>cmd.Wait()\<close>, or -1 for a child that a signal
  terminated. It returns in every case but one: a spawned child that never terminates
  under a context that is never done.
\<close>

theorem run_exit_code_taxonomy:
  "[ExitOK, ExitKillFailure, ExitContextCancel, ExitUnknown] = [0, 230, 231, 232]
   \<and> (case snd (run cmd ops w) of
        None \<Rightarrow> \<not> dryRunEnabled ops \<and> \<not> start_fails w
                 \<and> done_at (effective_ctx ops) = None \<and> terminates_at w = None
      | Some code \<Rightarrow>
          code \<in> {0, 230, 231, 232}
          \<or> (select_first (done_at (effective_ctx ops)) (exits_at w) (tie_picks_ctx w)
                = Some ProcDone
              \<and> (wait_result w = Some (ExitError (Exited code))
                  \<or> (code = - 1 \<and> (\<exists>sig. wait_result w = Some (ExitError (Signaled sig)))))))
   \<and> (dryRunEnabled ops \<or> start_fails w
        \<or> done_at (effective_ctx ops) \<noteq> None \<or> terminates_at w \<noteq> None
      \<longrightarrow> snd (run cmd ops w) \<noteq> None)"
proof (intro conjI)
  show "[ExitOK, ExitKillFailure, ExitContextCancel, ExitUnknown] = [0, 230, 231, 232]"
    by (simp add: ExitOK_def ExitKillFailure_def ExitContextCancel_def ExitUnknown_def)
next
  show "case snd (run cmd ops w) of
        None \<Rightarrow> \<not> dryRunEnabled ops \<and> \<not> start_fails w
                 \<and> done_at (effective_ctx ops) = None \<and> terminates_at w = None
      | Some code \<Rightarrow>
          code \<in> {0, 230, 231, 232}
          \<or> (select_first (done_at (effective_ctx ops)) (exits_at w) (tie_picks_ctx w)
                = Some ProcDone
              \<and> (wait_result w = Some (ExitError (Exited code))
                  \<or> (code = - 1 \<and> (\<exists>sig. wait_result w = Some (ExitError (Signaled sig))))))"
    by (cases "done_at (effective_ctx ops)"; cases "terminates_at w"; cases "wait_result w")
       (auto simp: run_def ExitOK_def ExitKillFailure_def ExitContextCancel_def
          ExitUnknown_def exits_at_def split: wait_error.split dest: ExitCode_not_exited)
next
  show "dryRunEnabled ops \<or> start_fails w
        \<or> done_at (effective_ctx ops) \<noteq> None \<or> terminates_at w \<noteq> None
      \<longrightarrow> snd (run cmd ops w) \<noteq> None"
    by (cases "done_at (effective_ctx ops)"; cases "terminates_at w"; cases "wait_result w")
       (auto simp: run_def exits_at_def split: wait_error.split process_state.split)
qed

theorem run_exit_code_taxonomy_witness:
  "snd (run \<lparr>cmdPath = ''/usr/bin/syft'', cmdArgs = [''syft'', ''version''], cmdErr = None,
             cmdStdin = None, cmdStdout = None, cmdStderr = None\<rparr>
           zeroOptions
           \<lparr>start_fails = False, terminates_at = Some 2, wait_latency = 0,
             wait_result = Some (ExitError (Exited 17)),
             kill_fails = False, tie_picks_ctx = True\<rparr>) = Some 17
   \<and> (17::int) \<notin> {0, 230, 231, 232}
   \<and> snd (run \<lparr>cmdPath = ''/usr/bin/syft'', cmdArgs = [''syft'', ''version''], cmdErr = None,
               cmdStdin = None, cmdStdout = None, cmdStderr = None\<rparr>
             zeroOptions
             \<lparr>start_fails = False, terminates_at = None, wait_latency = 0,
               wait_result = None, kill_fails = False, tie_picks_ctx = True\<rparr>) = None"
proof -
  let ?cmd = "\<lparr>cmdPath = ''/usr/bin/syft'', cmdArgs = [''syft'', ''version''], cmdErr = None,
               cmdStdin = None, cmdStdout = None, cmdStderr = None\<rparr>"
  let ?w = "\<lparr>start_fails = False, terminates_at = Some 2, wait_latency = 0,
             wait_result = Some (ExitError (Exited 17)),
             kill_fails = False, tie_picks_ctx = True\<rparr>"
  let ?v = "\<lparr>start_fails = False, terminates_at = None, wait_latency = 0,
             wait_result = None, kill_fails = False, tie_picks_ctx = True\<rparr>"
  have a: "snd (run ?cmd zeroOptions ?w) \<noteq> None"
    using run_exit_code_taxonomy [where cmd = ?cmd and ops = zeroOptions and w = ?w] by simp
  then obtain code where c: "snd (run ?cmd zeroOptions ?w) = Some code" by blast
  with run_exit_code_taxonomy [where cmd = ?cmd and ops = zeroOptions and w = ?w]
  have "code \<in> {0, 230, 231, 232} \<or> code = 17" by auto
  moreover have "snd (run ?cmd zeroOptions ?w) = Some 17"
    by (simp add: run_def zeroOptions_def effective_ctx_def Background_def exits_at_def)
  ultimately have "snd (run ?cmd zeroOptions ?w) = Some 17" by simp
  moreover have "snd (run ?cmd zeroOptions ?v) = None"
    by (simp add: run_def zeroOptions_def effective_ctx_def Background_def exits_at_def)
  ultimately show ?thesis by simp
qed

section \<open>Properties of the option functions\<close>

lemma apply_opts_append:
  "apply_opts ops (fs @ gs) = apply_opts (apply_opts ops fs) gs"
  by (induction fs arbitrary: ops) simp_all

lemma agree_on_optionFunc:
  "agree_on f a b \<Longrightarrow> agree_on f (optionFunc_of c a) (optionFunc_of c b)"
  by (cases c; cases f)
     (simp_all add: WithDryRun_def WithIO_def WithStdin_def WithStdout_def WithStderr_def)

lemma agree_on_apply_opts:
  "agree_on f a b \<Longrightarrow>
   agree_on f (apply_opts a (map optionFunc_of cs)) (apply_opts b (map optionFunc_of cs))"
  by (induction cs arbitrary: a b) (simp_all add: agree_on_optionFunc)

lemma optionFunc_frame:
  "f \<notin> concern_fields c \<Longrightarrow> agree_on f (optionFunc_of c a) a"
  by (cases c; cases f)
     (simp_all add: WithDryRun_def WithIO_def WithStdin_def WithStdout_def WithStderr_def)

lemma optionFunc_overwrites:
  "f \<in> concern_fields c \<Longrightarrow> agree_on f (optionFunc_of c a) (optionFunc_of c b)"
  by (cases c; cases f)
     (simp_all add: WithDryRun_def WithIO_def WithStdin_def WithStdout_def WithStderr_def)

lemma same_concern_fields:
  "same_concern c d \<Longrightarrow> concern_fields c = concern_fields d"
  by (cases c; cases d) simp_all

lemma Options_eq_fields:
  assumes "\<And>f. agree_on f a b"
  shows "a = (b :: Options)"
proof -
  have "agree_on FDryRun a b" "agree_on FStdin a b" "agree_on FStdout a b"
    "agree_on FStderr a b" "agree_on FCtx a b"
    using assms by blast+
  then show ?thesis by simp
qed

lemma earlier_write_lost:
  assumes "same_concern c d"
  shows "optionFunc_of d (apply_opts (optionFunc_of c a) (map optionFunc_of ys))
       = optionFunc_of d (apply_opts a (map optionFunc_of ys))"
proof (rule Options_eq_fields)
  fix f
  let ?l = "apply_opts (optionFunc_of c a) (map optionFunc_of ys)"
  let ?r = "apply_opts a (map optionFunc_of ys)"
  show "agree_on f (optionFunc_of d ?l) (optionFunc_of d ?r)"
  proof (cases "f \<in> concern_fields d")
    case True
    then show ?thesis by (rule optionFunc_overwrites)
  next
    case False
    with assms have "f \<notin> concern_fields c"
      by (simp add: same_concern_fields)
    then have "agree_on f (optionFunc_of c a) a"
      by (rule optionFunc_frame)
    then have "agree_on f ?l ?r"
      by (rule agree_on_apply_opts)
    then show ?thesis
      by (rule agree_on_optionFunc)
  qed
qed

lemma agree_on_trans:
  "agree_on f a b \<Longrightarrow> agree_on f b c \<Longrightarrow> agree_on f a c"
  by (cases f) simp_all

lemma apply_opts_frame:
  "\<forall>e \<in> set zs. f \<notin> concern_fields e \<Longrightarrow>
   agree_on f (apply_opts a (map optionFunc_of zs)) a"
proof (induction zs arbitrary: a)
  case Nil
  show ?case by (cases f) simp_all
next
  case (Cons e zs)
  then have "agree_on f (apply_opts (optionFunc_of e a) (map optionFunc_of zs)) (optionFunc_of e a)"
    by simp
  moreover from Cons.prems have "agree_on f (optionFunc_of e a) a"
    by (simp add: optionFunc_frame)
  ultimately show ?case
    by (simp add: agree_on_trans)
qed

lemma field_last_write:
  assumes "f \<in> concern_fields d" and "\<forall>e \<in> set zs. f \<notin> concern_fields e"
  shows "agree_on f (apply_opts a (map optionFunc_of (xs @ d # zs))) (optionFunc_of d b)"
proof -
  let ?s = "optionFunc_of d (apply_opts a (map optionFunc_of xs))"
  have "agree_on f (apply_opts ?s (map optionFunc_of zs)) ?s"
    using assms(2) by (rule apply_opts_frame)
  moreover have "agree_on f ?s (optionFunc_of d b)"
    using assms(1) by (rule optionFunc_overwrites)
  ultimately show ?thesis
    by (simp add: apply_opts_append agree_on_trans)
qed

lemma optionFunc_commute:
  "concern_fields c \<inter> concern_fields d = {} \<Longrightarrow>
   optionFunc_of c (optionFunc_of d a) = optionFunc_of d (optionFunc_of c a)"
  by (cases c; cases d)
     (simp_all add: WithDryRun_def WithIO_def WithStdin_def WithStdout_def WithStderr_def)

text \<open>
  C7 as stated fails: \<open>WithIO\<close> and \<open>WithStdin\<close> are different concerns, and
  \<open>WithIO\<close> changes the field \<open>stdin\<close> that belongs to the concern of \<open>WithStdin\<close>.
\<close>

theorem WithIO_overwrites_WithStdin_counterexample:
  "\<not> same_concern (CallWithIO None (Some 5) (Some 6)) (CallWithStdin (Some 1))
   \<and> FStdin \<in> concern_fields (CallWithStdin (Some 1))
   \<and> stdin (newOptions [WithStdin (Some 1)]) = Some 1
   \<and> stdin (WithIO None (Some 5) (Some 6) (newOptions [WithStdin (Some 1)])) = None
   \<and> \<not> agree_on FStdin
         (optionFunc_of (CallWithIO None (Some 5) (Some 6)) (newOptions [WithStdin (Some 1)]))
         (newOptions [WithStdin (Some 1)])"
  by (simp add: newOptions_def zeroOptions_def WithIO_def WithStdin_def)

text \<open>
  C7, as amended. In any sequence of calls to \<open>WithDryRun\<close>, \<open>WithIO\<close>, \<open>WithStdin\<close>,
  \<open>WithStdout\<close> and \<open>WithStderr\<close>, an application of a concern that is followed,
  anywhere later, by an application of the same concern can be dropped: the final
  \<open>Options\<close> value is the one obtained with the later application alone (from the zero
  value of \<open>newOptions\<close> as from any other). The functions are total and report no
  error. A function changes no field outside its own concern, where the concern of
  \<open>WithIO\<close> is the three streams and that of every other function is the one field it
  assigns. The concern of \<open>WithIO\<close> therefore overlaps those of \<open>WithStdin\<close>,
  \<open>WithStdout\<close> and \<open>WithStderr\<close>: every field ends with the value given by the last
  function in the sequence whose concern holds it, and two functions are independent of
  each other (they commute) when their concerns share no field.
\<close>

theorem option_funcs_last_write_wins:
  "(same_concern c d \<longrightarrow>
      apply_opts ops (map optionFunc_of (xs @ c # ys @ d # zs))
        = apply_opts ops (map optionFunc_of (xs @ ys @ d # zs))
      \<and> newOptions (map optionFunc_of (xs @ c # ys @ d # zs))
        = newOptions (map optionFunc_of (xs @ ys @ d # zs)))
   \<and> (f \<notin> concern_fields c \<longrightarrow> agree_on f (optionFunc_of c ops) ops)
   \<and> (dryRunEnabled (WithDryRun b ops) = b
      \<and> stdin (WithIO r w1 w2 ops) = r \<and> stdout (WithIO r w1 w2 ops) = w1
      \<and> stderr (WithIO r w1 w2 ops) = w2
      \<and> stdin (WithStdin r ops) = r \<and> stdout (WithStdout w1 ops) = w1
      \<and> stderr (WithStderr w2 ops) = w2)
   \<and> (f \<in> concern_fields d \<and> (\<forall>e \<in> set zs. f \<notin> concern_fields e) \<longrightarrow>
        agree_on f (apply_opts ops (map optionFunc_of (xs @ d # zs))) (optionFunc_of d ops'))
   \<and> (concern_fields c \<inter> concern_fields d = {} \<longrightarrow>
        optionFunc_of c (optionFunc_of d ops) = optionFunc_of d (optionFunc_of c ops))"
proof (intro conjI impI)
  assume same: "same_concern c d"
  have step: "apply_opts a (map optionFunc_of (xs @ c # ys @ d # zs))
            = apply_opts a (map optionFunc_of (xs @ ys @ d # zs))" for a
    by (simp add: apply_opts_append earlier_write_lost [OF same])
  show "apply_opts ops (map optionFunc_of (xs @ c # ys @ d # zs))
      = apply_opts ops (map optionFunc_of (xs @ ys @ d # zs))"
    by (rule step)
  show "newOptions (map optionFunc_of (xs @ c # ys @ d # zs))
      = newOptions (map optionFunc_of (xs @ ys @ d # zs))"
    unfolding newOptions_def by (rule step)
next
  assume "f \<notin> concern_fields c"
  then show "agree_on f (optionFunc_of c ops) ops"
    by (rule optionFunc_frame)
next
  assume "f \<in> concern_fields d \<and> (\<forall>e \<in> set zs. f \<notin> concern_fields e)"
  then show "agree_on f (apply_opts ops (map optionFunc_of (xs @ d # zs))) (optionFunc_of d ops')"
    by (intro field_last_write) blast+
next
  assume "concern_fields c \<inter> concern_fields d = {}"
  then show "optionFunc_of c (optionFunc_of d ops) = optionFunc_of d (optionFunc_of c ops)"
    by (rule optionFunc_commute)
qed (simp_all add: WithDryRun_def WithIO_def WithStdin_def WithStdout_def WithStderr_def)

theorem option_funcs_last_write_wins_witness:
  "newOptions [WithStdout (Some 4), WithStdin (Some 1), WithDryRun True, WithIO None (Some 5) (Some 6),
               WithStdin (Some 2), WithStderr None]
     = newOptions [WithStdout (Some 4), WithDryRun True, WithIO None (Some 5) (Some 6),
               WithStdin (Some 2), WithStderr None]
   \<and> newOptions [WithStdout (Some 4), WithDryRun True, WithIO None (Some 5) (Some 6),
               WithStdin (Some 2), WithStderr None]
     = \<lparr>dryRunEnabled = True, stdin = Some 2, stdout = Some 5, stderr = None, ctx = None\<rparr>
   \<and> dryRunEnabled (WithIO None (Some 5) (Some 6) zeroOptions) = dryRunEnabled zeroOptions
   \<and> stdout (apply_opts zeroOptions
               [WithStdout (Some 4), WithIO None (Some 5) (Some 6), WithDryRun True]) = Some 5
   \<and> WithDryRun True (WithStdin (Some 1) zeroOptions)
       = WithStdin (Some 1) (WithDryRun True zeroOptions)"
proof -
  have same: "same_concern (CallWithStdin (Some 1)) (CallWithStdin (Some 2))"
    by simp
  have out: "FDryRun \<notin> concern_fields (CallWithIO None (Some 5) (Some 6))"
    by simp
  have last: "FStdout \<in> concern_fields (CallWithIO None (Some 5) (Some 6))
      \<and> (\<forall>e \<in> set [CallWithDryRun True]. FStdout \<notin> concern_fields e)"
    by simp
  have disj: "concern_fields (CallWithDryRun True) \<inter> concern_fields (CallWithStdin (Some 1)) = {}"
    by simp
  note inst = option_funcs_last_write_wins
    [where c = "CallWithStdin (Some 1)" and d = "CallWithStdin (Some 2)"
       and xs = "[CallWithStdout (Some 4)]"
       and ys = "[CallWithDryRun True, CallWithIO None (Some 5) (Some 6)]"
       and zs = "[CallWithStderr None]", THEN conjunct1]
  have a: "newOptions [WithStdout (Some 4), WithStdin (Some 1), WithDryRun True,
               WithIO None (Some 5) (Some 6), WithStdin (Some 2), WithStderr None]
     = newOptions [WithStdout (Some 4), WithDryRun True, WithIO None (Some 5) (Some 6),
               WithStdin (Some 2), WithStderr None]"
    using inst same by simp
  have b: "newOptions [WithStdout (Some 4), WithDryRun True, WithIO None (Some 5) (Some 6),
               WithStdin (Some 2), WithStderr None]
     = \<lparr>dryRunEnabled = True, stdin = Some 2, stdout = Some 5, stderr = None, ctx = None\<rparr>"
    by (simp add: newOptions_def zeroOptions_def WithDryRun_def WithIO_def WithStdin_def
        WithStdout_def WithStderr_def)
  have c: "dryRunEnabled (WithIO None (Some 5) (Some 6) zeroOptions) = dryRunEnabled zeroOptions"
    using option_funcs_last_write_wins
      [where c = "CallWithIO None (Some 5) (Some 6)" and f = FDryRun and ops = zeroOptions,
         THEN conjunct2, THEN conjunct1] out
    by simp
  have d: "agree_on FStdout
      (apply_opts zeroOptions (map optionFunc_of
         ([CallWithStdout (Some 4)] @ CallWithIO None (Some 5) (Some 6) # [CallWithDryRun True])))
      (optionFunc_of (CallWithIO None (Some 5) (Some 6)) zeroOptions)"
    using option_funcs_last_write_wins
      [where d = "CallWithIO None (Some 5) (Some 6)" and f = FStdout and ops = zeroOptions
         and ops' = zeroOptions and xs = "[CallWithStdout (Some 4)]"
         and zs = "[CallWithDryRun True]",
         THEN conjunct2, THEN conjunct2, THEN conjunct2, THEN conjunct1] last
    by blast
  then have d': "stdout (apply_opts zeroOptions
               [WithStdout (Some 4), WithIO None (Some 5) (Some 6), WithDryRun True]) = Some 5"
    by (simp add: WithIO_def)
  have e: "WithDryRun True (WithStdin (Some 1) zeroOptions)
       = WithStdin (Some 1) (WithDryRun True zeroOptions)"
    using option_funcs_last_write_wins
      [where c = "CallWithDryRun True" and d = "CallWithStdin (Some 1)" and ops = zeroOptions,
         THEN conjunct2, THEN conjunct2, THEN conjunct2, THEN conjunct2] disj
    by simp
  from a b c d' e show ?thesis by blast
qed

section \<open>Properties of the pipelines\<close>

lemma errors_Join_all_nil:
  "(\<forall>e \<in> set errs. e = None) \<Longrightarrow> errors_Join errs = None"
  by (induction errs) (simp_all add: errors_Join_def List.map_filter_simps)

lemma errors_Join_some_failure:
  assumes "\<exists>e \<in> set errs. e \<noteq> None"
  shows "errors_Join errs = Some (JoinError (map the (filter (\<lambda>e. e \<noteq> None) errs)))"
proof -
  have kept: "List.map_filter (\<lambda>e. e) errs = map the (filter (\<lambda>e. e \<noteq> None) errs)"
    by (simp add: List.map_filter_def comp_def)
  from assms have "filter (\<lambda>e. e \<noteq> None) errs \<noteq> []"
    by (simp add: filter_empty_conv)
  with kept show ?thesis
    by (simp add: errors_Join_def)
qed

lemma Debug_Run_returns:
  assumes "getwd w = Inr pwd" and "mkdirAll w = None"
  shows "snd (Debug_Run d w) = Return (errors_Join (mandatory_errors d w))"
  using assms by (simp add: Debug_Run_def mandatory_errors_def Let_def)

lemma Debug_Run_calls:
  assumes "getwd w = Inr pwd" and "mkdirAll w = None"
  shows "calls_of (fst (Debug_Run d w)) =
           [(TermRun, Grype, Version), (TermRun, Syft, Version),
            (TermRun, Syft, ScanImage ''./test/.artifacts/build-image/test-local.tar''
                                      ''./test/.artifacts/sbom/sbom.json''),
            (TermRunLogErrorAsWarning, Podman, Version),
            (TermRunLogErrorAsWarning, Docker, Version)]"
  using assms by (simp add: Debug_Run_def Let_def)

lemma Debug_Run_getwd_fails:
  assumes "getwd w = Inl err"
  shows "Debug_Run d w =
           ([Logged LevelInfo ''start''
               [(''pipeline'', AStr ''debug''), (''dry_run'', ABool (DryRunEnabled d))],
             Logged LevelError (Error err @ ''\<newline>'') []],
            OsExit 1)"
  using assms by (simp add: Debug_Run_def Let_def)

lemma Debug_Run_mkdirAll_fails:
  assumes "getwd w = Inr pwd" and "mkdirAll w = Some err"
  shows "Debug_Run d w =
           ([Logged LevelInfo ''start''
               [(''pipeline'', AStr ''debug''), (''dry_run'', ABool (DryRunEnabled d))],
             Logged LevelInfo (''Current directory: '' @ pwd) [],
             MkdirAll (filepath_Join [pwd, ''test'', ''.artifacts'', ''build-image'']),
             Logged LevelError (Error err @ ''\<newline>'') []],
            OsExit 1)"
  using assms by (simp add: Debug_Run_def Let_def)

text \<open>
  C5, as amended. When \<open>os.Getwd\<close> and \<open>os.MkdirAll\<close> succeed, \<open>Debug.Run\<close> calls
  \<open>Run\<close> for Grype version, Syft version and Syft ScanImage, then
  \<open>RunLogErrorAsWarning\<close> for Podman and Docker version, and returns
  \<open>errors.Join\<close> of the three \<open>Run\<close> results: nil when all three are nil, otherwise
  one joined error that holds exactly the non-nil ones in the order of the calls, its
  message being their messages in that order. The result is the same in every world
  that agrees on the three mandatory results, whatever the optional commands do.
  When \<open>os.Getwd\<close> fails, or \<open>os.MkdirAll\<close> fails after it, \<open>Debug.Run\<close> logs the
  error at error level and ends the program with \<open>os.Exit(1)\<close>; it has called no
  command and returns nothing.
\<close>

theorem Debug_Run_joins_mandatory:
  "(getwd w = Inr pwd \<and> mkdirAll w = None \<longrightarrow>
      snd (Debug_Run d w) = Return (errors_Join (mandatory_errors d w))
      \<and> calls_of (fst (Debug_Run d w)) =
           [(TermRun, Grype, Version), (TermRun, Syft, Version),
            (TermRun, Syft, ScanImage ''./test/.artifacts/build-image/test-local.tar''
                                      ''./test/.artifacts/sbom/sbom.json''),
            (TermRunLogErrorAsWarning, Podman, Version),
            (TermRunLogErrorAsWarning, Docker, Version)]
      \<and> ((\<forall>e \<in> set (mandatory_errors d w). e = None) \<longrightarrow> snd (Debug_Run d w) = Return None)
      \<and> ((\<exists>e \<in> set (mandatory_errors d w). e \<noteq> None) \<longrightarrow>
            snd (Debug_Run d w) =
              Return (Some (JoinError (map the (filter (\<lambda>e. e \<noteq> None) (mandatory_errors d w)))))
            \<and> Error (JoinError (map the (filter (\<lambda>e. e \<noteq> None) (mandatory_errors d w)))) =
                join_with ''\<newline>''
                  (map Error (map the (filter (\<lambda>e. e \<noteq> None) (mandatory_errors d w)))))
      \<and> (getwd w' = getwd w \<and> mkdirAll w' = mkdirAll w
            \<and> mandatory_errors d w' = mandatory_errors d w
          \<longrightarrow> snd (Debug_Run d w') = snd (Debug_Run d w)))
   \<and> (getwd w = Inl err \<longrightarrow>
        Debug_Run d w =
           ([Logged LevelInfo ''start''
               [(''pipeline'', AStr ''debug''), (''dry_run'', ABool (DryRunEnabled d))],
             Logged LevelError (Error err @ ''\<newline>'') []],
            OsExit 1))
   \<and> (getwd w = Inr pwd \<and> mkdirAll w = Some err \<longrightarrow>
        Debug_Run d w =
           ([Logged LevelInfo ''start''
               [(''pipeline'', AStr ''debug''), (''dry_run'', ABool (DryRunEnabled d))],
             Logged LevelInfo (''Current directory: '' @ pwd) [],
             MkdirAll (filepath_Join [pwd, ''test'', ''.artifacts'', ''build-image'']),
             Logged LevelError (Error err @ ''\<newline>'') []],
            OsExit 1))
   \<and> ((\<exists>e. getwd w = Inl e) \<or> mkdirAll w \<noteq> None \<longrightarrow>
        calls_of (fst (Debug_Run d w)) = [] \<and> snd (Debug_Run d w) = OsExit 1)"
proof (intro conjI impI)
  assume ok: "getwd w = Inr pwd \<and> mkdirAll w = None"
  then have gw: "getwd w = Inr pwd" and mk: "mkdirAll w = None" by simp_all
  show ret: "snd (Debug_Run d w) = Return (errors_Join (mandatory_errors d w))"
    using gw mk by (rule Debug_Run_returns)
  show "calls_of (fst (Debug_Run d w)) =
           [(TermRun, Grype, Version), (TermRun, Syft, Version),
            (TermRun, Syft, ScanImage ''./test/.artifacts/build-image/test-local.tar''
                                      ''./test/.artifacts/sbom/sbom.json''),
            (TermRunLogErrorAsWarning, Podman, Version),
            (TermRunLogErrorAsWarning, Docker, Version)]"
    using gw mk by (rule Debug_Run_calls)
  show "snd (Debug_Run d w) = Return None"
    if "\<forall>e \<in> set (mandatory_errors d w). e = None"
    using ret errors_Join_all_nil [OF that] by simp
  show "snd (Debug_Run d w) =
      Return (Some (JoinError (map the (filter (\<lambda>e. e \<noteq> None) (mandatory_errors d w)))))"
    if "\<exists>e \<in> set (mandatory_errors d w). e \<noteq> None"
    using ret errors_Join_some_failure [OF that] by simp
  show "Error (JoinError (map the (filter (\<lambda>e. e \<noteq> None) (mandatory_errors d w)))) =
      join_with ''\<newline>'' (map Error (map the (filter (\<lambda>e. e \<noteq> None) (mandatory_errors d w))))"
    by simp
  show "snd (Debug_Run d w') = snd (Debug_Run d w)"
    if same: "getwd w' = getwd w \<and> mkdirAll w' = mkdirAll w
       \<and> mandatory_errors d w' = mandatory_errors d w"
  proof -
    from same gw mk have "getwd w' = Inr pwd" "mkdirAll w' = None" by simp_all
    then have "snd (Debug_Run d w') = Return (errors_Join (mandatory_errors d w'))"
      by (rule Debug_Run_returns)
    with same ret show ?thesis by simp
  qed
next
  assume "getwd w = Inl err"
  then show "Debug_Run d w =
           ([Logged LevelInfo ''start''
               [(''pipeline'', AStr ''debug''), (''dry_run'', ABool (DryRunEnabled d))],
             Logged LevelError (Error err @ ''\<newline>'') []],
            OsExit 1)"
    by (rule Debug_Run_getwd_fails)
next
  assume "getwd w = Inr pwd \<and> mkdirAll w = Some err"
  then show "Debug_Run d w =
           ([Logged LevelInfo ''start''
               [(''pipeline'', AStr ''debug''), (''dry_run'', ABool (DryRunEnabled d))],
             Logged LevelInfo (''Current directory: '' @ pwd) [],
             MkdirAll (filepath_Join [pwd, ''test'', ''.artifacts'', ''build-image'']),
             Logged LevelError (Error err @ ''\<newline>'') []],
            OsExit 1)"
    by (intro Debug_Run_mkdirAll_fails) simp_all
next
  assume fails: "(\<exists>e. getwd w = Inl e) \<or> mkdirAll w \<noteq> None"
  show "calls_of (fst (Debug_Run d w)) = []"
  proof (cases "getwd w")
    case (Inl e)
    then show ?thesis by (simp add: Debug_Run_getwd_fails)
  next
    case (Inr p)
    with fails obtain e where "mkdirAll w = Some e" by auto
    with Inr show ?thesis by (simp add: Debug_Run_mkdirAll_fails)
  qed
  show "snd (Debug_Run d w) = OsExit 1"
  proof (cases "getwd w")
    case (Inl e)
    then show ?thesis by (simp add: Debug_Run_getwd_fails)
  next
    case (Inr p)
    with fails obtain e where "mkdirAll w = Some e" by auto
    with Inr show ?thesis by (simp add: Debug_Run_mkdirAll_fails)
  qed
qed

theorem Debug_Run_joins_mandatory_witness:
  "snd (Debug_Run (NewDebug (Some 1) (Some 2))
         \<lparr>getwd = Inr ''/work'', mkdirAll = None,
           cmdRun = (\<lambda>c. case c of BuiltCommand prog out err opn dry \<Rightarrow>
                      (case prog of
                         Grype \<Rightarrow> Some (ErrorString ''grype failed'')
                       | Syft \<Rightarrow> (case opn of Version \<Rightarrow> None
                                  | ScanImage src dst \<Rightarrow> Some (ErrorString ''syft failed''))
                       | Podman \<Rightarrow> Some (ErrorString ''podman failed'')
                       | Docker \<Rightarrow> None))\<rparr>)
     = Return (Some (JoinError [ErrorString ''grype failed'', ErrorString ''syft failed'']))
   \<and> Error (JoinError [ErrorString ''grype failed'', ErrorString ''syft failed''])
     = ''grype failed\<newline>syft failed''
   \<and> snd (Debug_Run (NewDebug (Some 1) (Some 2))
         \<lparr>getwd = Inr ''/work'', mkdirAll = None,
           cmdRun = (\<lambda>c. case c of BuiltCommand prog out err opn dry \<Rightarrow>
                      (case prog of
                         Podman \<Rightarrow> Some (ErrorString ''podman failed'')
                       | Docker \<Rightarrow> Some (ErrorString ''docker failed'')
                       | _ \<Rightarrow> None))\<rparr>)
     = Return None
   \<and> Debug_Run (NewDebug (Some 1) (Some 2))
         \<lparr>getwd = Inr ''/'', mkdirAll = Some (ErrorString ''mkdir /test: read-only file system''),
           cmdRun = (\<lambda>c. None)\<rparr>
     = ([Logged LevelInfo ''start'' [(''pipeline'', AStr ''debug''), (''dry_run'', ABool False)],
         Logged LevelInfo ''Current directory: /'' [],
         MkdirAll ''/test/.artifacts/build-image'',
         Logged LevelError ''mkdir /test: read-only file system\<newline>'' []],
        OsExit 1)
   \<and> snd (Debug_Run (NewDebug (Some 1) (Some 2))
         \<lparr>getwd = Inl (ErrorString ''getwd: no such file or directory''), mkdirAll = None,
           cmdRun = (\<lambda>c. Some (ErrorString ''not reached''))\<rparr>)
     = OsExit 1"
proof -
  let ?d = "NewDebug (Some 1) (Some 2)"
  let ?w = "\<lparr>getwd = Inr ''/work'', mkdirAll = None,
           cmdRun = (\<lambda>c. case c of BuiltCommand prog out err opn dry \<Rightarrow>
                      (case prog of
                         Grype \<Rightarrow> Some (ErrorString ''grype failed'')
                       | Syft \<Rightarrow> (case opn of Version \<Rightarrow> None
                                  | ScanImage src dst \<Rightarrow> Some (ErrorString ''syft failed''))
                       | Podman \<Rightarrow> Some (ErrorString ''podman failed'')
                       | Docker \<Rightarrow> None))\<rparr>"
  let ?v = "\<lparr>getwd = Inr ''/work'', mkdirAll = None,
           cmdRun = (\<lambda>c. case c of BuiltCommand prog out err opn dry \<Rightarrow>
                      (case prog of
                         Podman \<Rightarrow> Some (ErrorString ''podman failed'')
                       | Docker \<Rightarrow> Some (ErrorString ''docker failed'')
                       | _ \<Rightarrow> None))\<rparr>"
  let ?m = "\<lparr>getwd = Inr ''/'', mkdirAll = Some (ErrorString ''mkdir /test: read-only file system''),
           cmdRun = (\<lambda>c. None)\<rparr>"
  let ?g = "\<lparr>getwd = Inl (ErrorString ''getwd: no such file or directory''), mkdirAll = None,
           cmdRun = (\<lambda>c. Some (ErrorString ''not reached''))\<rparr>"
  have mw: "mandatory_errors ?d ?w =
      [Some (ErrorString ''grype failed''), None, Some (ErrorString ''syft failed'')]"
    by (simp add: mandatory_errors_def)
  have mv: "mandatory_errors ?d ?v = [None, None, None]"
    by (simp add: mandatory_errors_def)
  have gw: "getwd ?w = Inr ''/work'' \<and> mkdirAll ?w = None" by simp
  have gv: "getwd ?v = Inr ''/work'' \<and> mkdirAll ?v = None" by simp
  have gm: "getwd ?m = Inr ''/''
      \<and> mkdirAll ?m = Some (ErrorString ''mkdir /test: read-only file system'')"
    by simp
  have gg: "(\<exists>e. getwd ?g = Inl e) \<or> mkdirAll ?g \<noteq> None" by simp
  have "snd (Debug_Run ?d ?w) = Return (errors_Join (mandatory_errors ?d ?w))"
    using Debug_Run_joins_mandatory
      [where d = ?d and w = ?w and w' = ?w and pwd = "''/work''", THEN conjunct1] gw
    by blast
  then have "snd (Debug_Run ?d ?w) =
      Return (Some (JoinError [ErrorString ''grype failed'', ErrorString ''syft failed'']))"
    by (simp only: mw) (simp add: errors_Join_def List.map_filter_simps)
  moreover have "snd (Debug_Run ?d ?v) = Return (errors_Join (mandatory_errors ?d ?v))"
    using Debug_Run_joins_mandatory
      [where d = ?d and w = ?v and w' = ?v and pwd = "''/work''", THEN conjunct1] gv
    by blast
  then have "snd (Debug_Run ?d ?v) = Return None"
    by (simp only: mv) (simp add: errors_Join_def List.map_filter_simps)
  moreover have "Error (JoinError [ErrorString ''grype failed'', ErrorString ''syft failed''])
     = ''grype failed\<newline>syft failed''"
    by simp
  moreover have "Debug_Run ?d ?m =
      ([Logged LevelInfo ''start'' [(''pipeline'', AStr ''debug''), (''dry_run'', ABool False)],
        Logged LevelInfo ''Current directory: /'' [],
        MkdirAll ''/test/.artifacts/build-image'',
        Logged LevelError ''mkdir /test: read-only file system\<newline>'' []],
       OsExit 1)"
    using Debug_Run_joins_mandatory
      [where d = ?d and w = ?m and pwd = "''/''"
         and err = "ErrorString ''mkdir /test: read-only file system''",
         THEN conjunct2, THEN conjunct2, THEN conjunct1] gm
    by (simp add: NewDebug_def filepath_Join_def filepath_Clean_def)
  moreover have "snd (Debug_Run ?d ?g) = OsExit 1"
    using Debug_Run_joins_mandatory
      [where d = ?d and w = ?g, THEN conjunct2, THEN conjunct2, THEN conjunct2] gg
    by blast
  ultimately show ?thesis by blast
qed

text \<open>
  C5 as stated fails when \<open>os.Getwd\<close> fails: with every command succeeding,
  \<open>Debug.Run\<close> logs the error and ends the program with status 1; it calls no command
  and returns nothing.
\<close>

theorem Debug_Run_getwd_failure_counterexample:
  "Debug_Run (NewDebug (Some 1) (Some 2))
     \<lparr>getwd = Inl (ErrorString ''getwd: no such file or directory''), mkdirAll = None,
       cmdRun = (\<lambda>c. None)\<rparr>
   = ([Logged LevelInfo ''start'' [(''pipeline'', AStr ''debug''), (''dry_run'', ABool False)],
       Logged LevelError ''getwd: no such file or directory\<newline>'' []],
      OsExit 1)
   \<and> calls_of (fst (Debug_Run (NewDebug (Some 1) (Some 2))
        \<lparr>getwd = Inl (ErrorString ''getwd: no such file or directory''), mkdirAll = None,
          cmdRun = (\<lambda>c. None)\<rparr>)) = []
   \<and> snd (Debug_Run (NewDebug (Some 1) (Some 2))
        \<lparr>getwd = Inl (ErrorString ''getwd: no such file or directory''), mkdirAll = None,
          cmdRun = (\<lambda>c. None)\<rparr>) \<noteq> Return None"
  by (simp add: Debug_Run_def NewDebug_def)

text \<open>
  C8. Through \<open>RunLogErrorAsWarning\<close> the caller receives a nil error for every exit
  code of the process runner, 232 included, and it receives it whenever the runner
  returns; a code other than \<open>ExitOK\<close> adds one warning-level log record after the
  runner's events, and \<open>ExitOK\<close> adds none.
\<close>

theorem RunLogErrorAsWarning_no_error:
  "snd (RunLogErrorAsWarning e w) =
     map_option (\<lambda>code. None) (snd (run (exe_cmd e) (newOptions (exe_options e)) w))
   \<and> (snd (run (exe_cmd e) (newOptions (exe_options e)) w) = Some code \<and> code \<noteq> ExitOK
        \<longrightarrow> fst (RunLogErrorAsWarning e w) =
              fst (run (exe_cmd e) (newOptions (exe_options e)) w)
                @ [Slog LevelWarn ''command failed'' [(''exit_code'', AInt code)]]
            \<and> is_warning (last (fst (RunLogErrorAsWarning e w))))
   \<and> (snd (run (exe_cmd e) (newOptions (exe_options e)) w) = Some ExitOK
        \<longrightarrow> fst (RunLogErrorAsWarning e w) = fst (run (exe_cmd e) (newOptions (exe_options e)) w))"
  by (cases "run (exe_cmd e) (newOptions (exe_options e)) w")
     (auto simp: RunLogErrorAsWarning_def split: option.split)

theorem RunLogErrorAsWarning_no_error_witness:
  "RunLogErrorAsWarning
     \<lparr>exe_cmd = \<lparr>cmdPath = ''podman'', cmdArgs = [''podman'', ''version''],
                 cmdErr = Some (ErrorString ''executable file not found in $PATH''),
                 cmdStdin = None, cmdStdout = None, cmdStderr = None\<rparr>,
       exe_options = [WithIO None (Some 1) (Some 2), WithDryRun False]\<rparr>
     \<lparr>start_fails = True, terminates_at = None, wait_latency = 0, wait_result = None,
       kill_fails = False, tie_picks_ctx = False\<rparr>
   = ([Slog LevelInfo ''shell exec''
         [(''dry_run'', ABool False), (''command'', AStr ''podman version'')],
       StartFailed \<lparr>cmdPath = ''podman'', cmdArgs = [''podman'', ''version''],
                    cmdErr = Some (ErrorString ''executable file not found in $PATH''),
                    cmdStdin = None, cmdStdout = Some 1, cmdStderr = Some 2\<rparr>,
       Slog LevelWarn ''command failed'' [(''exit_code'', AInt 232)]],
      Some None)"
proof -
  let ?e = "\<lparr>exe_cmd = \<lparr>cmdPath = ''podman'', cmdArgs = [''podman'', ''version''],
                 cmdErr = Some (ErrorString ''executable file not found in $PATH''),
                 cmdStdin = None, cmdStdout = None, cmdStderr = None\<rparr>,
       exe_options = [WithIO None (Some 1) (Some 2), WithDryRun False]\<rparr>"
  let ?w = "\<lparr>start_fails = True, terminates_at = None, wait_latency = 0, wait_result = None,
       kill_fails = False, tie_picks_ctx = False\<rparr>"
  have r: "run (exe_cmd ?e) (newOptions (exe_options ?e)) ?w =
      ([Slog LevelInfo ''shell exec''
         [(''dry_run'', ABool False), (''command'', AStr ''podman version'')],
       StartFailed \<lparr>cmdPath = ''podman'', cmdArgs = [''podman'', ''version''],
                    cmdErr = Some (ErrorString ''executable file not found in $PATH''),
                    cmdStdin = None, cmdStdout = Some 1, cmdStderr = Some 2\<rparr>],
       Some 232)"
    by (simp add: run_def newOptions_def zeroOptions_def WithIO_def WithDryRun_def
        shell_exec_record_def Cmd_String_def wire_def ExitUnknown_def)
  have ne: "(232::int) \<noteq> ExitOK" by (simp add: ExitOK_def)
  from RunLogErrorAsWarning_no_error [where e = ?e and w = ?w and code = 232] r ne
  have "snd (RunLogErrorAsWarning ?e ?w) = Some None"
    and "fst (RunLogErrorAsWarning ?e ?w) =
      [Slog LevelInfo ''shell exec''
         [(''dry_run'', ABool False), (''command'', AStr ''podman version'')],
       StartFailed \<lparr>cmdPath = ''podman'', cmdArgs = [''podman'', ''version''],
                    cmdErr = Some (ErrorString ''executable file not found in $PATH''),
                    cmdStdin = None, cmdStdout = Some 1, cmdStderr = Some 2\<rparr>,
       Slog LevelWarn ''command failed'' [(''exit_code'', AInt 232)]]"
    by simp_all
  then show ?thesis by (simp add: prod_eq_iff)
qed

lemma Execute_eq:
  "Execute p runDebug runDebugSysInfo ord =
     (p\<lparr>pipeline_stdout := pipeline_stdout p @ [report (fst runDebug) (fst runDebugSysInfo)]\<rparr>,
      errGroup_Wait ord (snd runDebug) (snd runDebugSysInfo))"
  by (simp add: Execute_def Let_def)

lemma errGroup_Wait_cases:
  "errGroup_Wait ord a b = None \<longleftrightarrow> a = None \<and> b = None"
  "errGroup_Wait ord a b = a \<or> errGroup_Wait ord a b = b"
  by (cases ord; cases a; cases b; simp add: errGroup_Wait_def)+

text \<open>
  C9. For all strings \<open>A\<close> and \<open>B\<close> returned by the two jobs, with or without an
  error, \<open>Execute\<close> makes one write to its writer, of exactly
  \<open>"debug output:\nA\nsystem information:\nB\n"\<close>; the writer's content is the same
  whichever job finishes first.
\<close>

theorem Execute_writes_report:
  "pipeline_stdout (fst (Execute p (A, errA) (B, errB) ord)) =
     pipeline_stdout p
       @ [''debug output:\<newline>'' @ A @ ''\<newline>system information:\<newline>'' @ B
            @ ''\<newline>'']
   \<and> fst (Execute p (A, errA) (B, errB) DebugJobFirst)
       = fst (Execute p (A, errA) (B, errB) SysInfoJobFirst)"
  by (simp add: Execute_eq report_def)

theorem Execute_writes_report_witness:
  "pipeline_stdout (fst (Execute (NewDebugPipeline 0 []) (''A'', None) (''B'', None) SysInfoJobFirst))
     = [''debug output:\<newline>A\<newline>system information:\<newline>B\<newline>'']"
  using Execute_writes_report
    [where p = "NewDebugPipeline 0 []" and A = "''A''" and B = "''B''"
       and errA = None and errB = None and ord = SysInfoJobFirst]
  by (simp add: NewDebugPipeline_def)

text \<open>
  C10 as stated fails when a failing job returns a non-empty string with its error: the
  goroutine assigns that string to the result variable, and the report contains it.
\<close>

theorem Execute_failed_job_output_counterexample:
  "Execute (NewDebugPipeline 0 [])
     (''partial'', Some (ErrorString ''exit code: 1'')) (''B'', None) DebugJobFirst
   = (\<lparr>name = ''Debug Pipeline'', client = 0,
        pipeline_stdout =
          [''debug output:\<newline>partial\<newline>system information:\<newline>B\<newline>'']\<rparr>,
      Some (ErrorString ''exit code: 1''))
   \<and> ''debug output:\<newline>partial\<newline>system information:\<newline>B\<newline>''
       \<noteq> ''debug output:\<newline>\<newline>system information:\<newline>B\<newline>''"
  by (simp add: Execute_def NewDebugPipeline_def report_def errGroup_Wait_def)

text \<open>
  C10, as amended. When a job returns a non-nil error, \<open>Execute\<close> still writes the
  report and then returns a non-nil error, that of the failing job which finished first.
  The contribution of each job, failed or not, is the string the job returned; it is
  empty when the job returned the empty string.
\<close>

theorem Execute_reports_then_returns_error:
  assumes "snd runDebug \<noteq> None \<or> snd runDebugSysInfo \<noteq> None"
  shows "pipeline_stdout (fst (Execute p runDebug runDebugSysInfo ord)) =
           pipeline_stdout p
             @ [''debug output:\<newline>'' @ fst runDebug @ ''\<newline>system information:\<newline>''
                  @ fst runDebugSysInfo @ ''\<newline>'']
       \<and> snd (Execute p runDebug runDebugSysInfo ord) \<noteq> None
       \<and> snd (Execute p runDebug runDebugSysInfo ord) \<in> {snd runDebug, snd runDebugSysInfo}
       \<and> snd (Execute p runDebug runDebugSysInfo ord) =
           (case ord of
              DebugJobFirst \<Rightarrow> (if snd runDebug \<noteq> None then snd runDebug else snd runDebugSysInfo)
            | SysInfoJobFirst \<Rightarrow> (if snd runDebugSysInfo \<noteq> None then snd runDebugSysInfo
                                  else snd runDebug))
       \<and> (fst runDebug = [] \<longrightarrow>
            pipeline_stdout (fst (Execute p runDebug runDebugSysInfo ord)) =
              pipeline_stdout p
                @ [''debug output:\<newline>\<newline>system information:\<newline>''
                     @ fst runDebugSysInfo @ ''\<newline>''])
       \<and> (fst runDebugSysInfo = [] \<longrightarrow>
            pipeline_stdout (fst (Execute p runDebug runDebugSysInfo ord)) =
              pipeline_stdout p
                @ [''debug output:\<newline>'' @ fst runDebug
                     @ ''\<newline>system information:\<newline>\<newline>''])"
proof (intro conjI impI)
  show "pipeline_stdout (fst (Execute p runDebug runDebugSysInfo ord)) =
           pipeline_stdout p
             @ [''debug output:\<newline>'' @ fst runDebug @ ''\<newline>system information:\<newline>''
                  @ fst runDebugSysInfo @ ''\<newline>'']"
    by (simp add: Execute_eq report_def)
  show "snd (Execute p runDebug runDebugSysInfo ord) \<noteq> None"
    using assms by (simp add: Execute_eq errGroup_Wait_cases(1))
  show "snd (Execute p runDebug runDebugSysInfo ord) \<in> {snd runDebug, snd runDebugSysInfo}"
    using errGroup_Wait_cases(2) [of ord "snd runDebug" "snd runDebugSysInfo"]
    by (auto simp: Execute_eq)
  show "snd (Execute p runDebug runDebugSysInfo ord) =
           (case ord of
              DebugJobFirst \<Rightarrow> (if snd runDebug \<noteq> None then snd runDebug else snd runDebugSysInfo)
            | SysInfoJobFirst \<Rightarrow> (if snd runDebugSysInfo \<noteq> None then snd runDebugSysInfo
                                  else snd runDebug))"
    by (cases ord; cases "snd runDebug"; cases "snd runDebugSysInfo")
       (simp_all add: Execute_eq errGroup_Wait_def)
  show "pipeline_stdout (fst (Execute p runDebug runDebugSysInfo ord)) =
              pipeline_stdout p
                @ [''debug output:\<newline>\<newline>system information:\<newline>''
                     @ fst runDebugSysInfo @ ''\<newline>'']"
    if "fst runDebug = []"
    using that by (simp add: Execute_eq report_def)
  show "pipeline_stdout (fst (Execute p runDebug runDebugSysInfo ord)) =
              pipeline_stdout p
                @ [''debug output:\<newline>'' @ fst runDebug
                     @ ''\<newline>system information:\<newline>\<newline>'']"
    if "fst runDebugSysInfo = []"
    using that by (simp add: Execute_eq report_def)
qed

theorem Execute_reports_then_returns_error_witness:
  "Execute (NewDebugPipeline 0 [''earlier''])
     ([], Some (ErrorString ''exit code: 1'')) (''Linux'', None) SysInfoJobFirst
   = (\<lparr>name = ''Debug Pipeline'', client = 0,
        pipeline_stdout =
          [''earlier'',
           ''debug output:\<newline>\<newline>system information:\<newline>Linux\<newline>'']\<rparr>,
      Some (ErrorString ''exit code: 1''))"
proof -
  let ?p = "NewDebugPipeline 0 [''earlier'']"
  let ?a = "([], Some (ErrorString ''exit code: 1'')) :: string \<times> error option"
  let ?b = "(''Linux'', None) :: string \<times> error option"
  have failed: "snd ?a \<noteq> None \<or> snd ?b \<noteq> None" by simp
  note inst = Execute_reports_then_returns_error [OF failed, where p = ?p and ord = SysInfoJobFirst]
  have out: "pipeline_stdout (fst (Execute ?p ?a ?b SysInfoJobFirst)) =
      [''earlier'', ''debug output:\<newline>\<newline>system information:\<newline>Linux\<newline>'']"
    using inst [THEN conjunct1] by (simp add: NewDebugPipeline_def)
  have err: "snd (Execute ?p ?a ?b SysInfoJobFirst) = Some (ErrorString ''exit code: 1'')"
    using inst [THEN conjunct2, THEN conjunct2, THEN conjunct2, THEN conjunct1] by simp
  have rest: "name (fst (Execute ?p ?a ?b SysInfoJobFirst)) = ''Debug Pipeline''"
    "client (fst (Execute ?p ?a ?b SysInfoJobFirst)) = 0"
    by (simp_all add: Execute_eq NewDebugPipeline_def)
  from out err rest show ?thesis
    by (simp add: prod_eq_iff DebugPipeline.equality)
qed

end
